theory Spec2Isabelle
  imports Main "HOL-Library.Word"
begin

unbundle bit_operations_syntax

section \<open>JavaScript values and object identity\<close>

text \<open>
  Objects are known by their identity: a reference is the address of an object. Two
  references are the same object exactly when they are equal.
\<close>

type_synonym ref = nat

text \<open>
  The JavaScript values that keys and variables range over. \<open>Num n\<close> is the number
  \<open>n\<close> (so \<open>Num 0\<close> is \<open>+0\<close>); \<open>NegZero\<close> is \<open>-0\<close>; \<open>Obj r\<close> is the object at \<open>r\<close>;
  \<open>Intrinsic n\<close> is the built-in object of the realm with the name \<open>n\<close>, such as
  \<open>Object.prototype\<close> or the function \<open>Object.prototype.toString\<close>.
\<close>

datatype jsval =
    Undefined
  | Null
  | Boolean bool
  | NaN
  | NegZero
  | Num int
  | Str string
  | Obj ref
  | Intrinsic string

fun zero_norm :: "jsval \<Rightarrow> jsval" where
  "zero_norm NegZero = Num 0"
| "zero_norm v = v"

text \<open>\<open>Object.is\<close> (SameValue): \<open>NaN\<close> is itself, \<open>+0\<close> and \<open>-0\<close> differ.\<close>

definition same_value :: "jsval \<Rightarrow> jsval \<Rightarrow> bool" where
  "same_value x y = (x = y)"

text \<open>The key comparison of \<open>Map\<close> (SameValueZero): \<open>NaN\<close> is itself, \<open>+0\<close> is \<open>-0\<close>.\<close>

definition same_value_zero :: "jsval \<Rightarrow> jsval \<Rightarrow> bool" where
  "same_value_zero x y = (zero_norm x = zero_norm y)"

text \<open>\<open>===\<close> (strict equality): \<open>NaN\<close> equals nothing, \<open>+0\<close> equals \<open>-0\<close>.\<close>

definition strict_equals :: "jsval \<Rightarrow> jsval \<Rightarrow> bool" where
  "strict_equals x y = (x \<noteq> NaN \<and> zero_norm x = zero_norm y)"

text \<open>\<open>a ?? b\<close>: the right operand when the left one is \<open>null\<close> or \<open>undefined\<close>.\<close>

definition nullish :: "jsval \<Rightarrow> bool" where
  "nullish v = (v = Undefined \<or> v = Null)"

definition nullish_coalesce :: "jsval \<Rightarrow> jsval \<Rightarrow> jsval" where
  "nullish_coalesce a b = (if nullish a then b else a)"

text \<open>What a method throws.\<close>

datatype error = Error string | TypeError string

section \<open>Scope: variables and template caches\<close>

subsection \<open>Records of variables\<close>

text \<open>
  \<open>type Varibales = { [key: PropertyKey]: unknown }\<close>. A record of variables is an
  ordinary object: it has own properties and a prototype. A record written as an
  object literal has the prototype \<open>Object.prototype\<close>. Keys are property names.
\<close>

record variables =
  own :: "string \<rightharpoonup> jsval"
  proto :: jsval

definition ObjectPrototype :: jsval where
  "ObjectPrototype = Intrinsic ''Object.prototype''"

text \<open>
  The properties of \<open>Object.prototype\<close> in a realm that has not changed or frozen it:
  the accessor \<open>__proto__\<close>, \<open>constructor\<close> and the methods.
\<close>

definition Object_prototype_methods :: "string list" where
  "Object_prototype_methods =
     [''__defineGetter__'', ''__defineSetter__'', ''hasOwnProperty'', ''__lookupGetter__'',
      ''__lookupSetter__'', ''isPrototypeOf'', ''propertyIsEnumerable'', ''toString'',
      ''valueOf'', ''toLocaleString'']"


text \<open>
  What a read of a property gives when it reaches \<open>Object.prototype\<close> from an object
  whose prototype that is: the getter of \<open>__proto__\<close> returns the prototype of the
  object read, the other names give the built-in functions, any other name gives
  \<open>undefined\<close>.
\<close>

definition Object_prototype_get :: "string \<Rightarrow> jsval" where
  "Object_prototype_get k =
     (if k = ''__proto__'' then ObjectPrototype
      else if k = ''constructor'' then Intrinsic ''Object''
      else if k \<in> set Object_prototype_methods then Intrinsic (''Object.prototype.'' @ k)
      else Undefined)"

definition is_object :: "jsval \<Rightarrow> bool" where
  "is_object v = (case v of Obj _ \<Rightarrow> True | Intrinsic _ \<Rightarrow> True | _ \<Rightarrow> False)"

text \<open>
  A prototype other than \<open>Object.prototype\<close> and \<open>null\<close> is an object the sources at hand
  say nothing about. What a read or an assignment of a property does when the object
  has no such own property and the lookup goes on to such a prototype is a parameter
  of the model: the read gives a value, the assignment gives the object as it leaves
  it or throws. Both take the prototype, the object and the key.
\<close>

record realm =
  inherited_get :: "jsval \<Rightarrow> variables \<Rightarrow> string \<Rightarrow> jsval"
  inherited_set :: "jsval \<Rightarrow> variables \<Rightarrow> string \<Rightarrow> jsval \<Rightarrow> error + variables"

text \<open>\<open>obj[key]\<close>\<close>

definition get_prop :: "realm \<Rightarrow> variables \<Rightarrow> string \<Rightarrow> jsval" where
  "get_prop rlm obj k =
     (case own obj k of
        Some v \<Rightarrow> v
      | None \<Rightarrow>
          if proto obj = Null then Undefined
          else if proto obj = ObjectPrototype then Object_prototype_get k
          else inherited_get rlm (proto obj) obj k)"

text \<open>
  \<open>obj[key] = value\<close> in strict code. An own property is overwritten. Otherwise the
  property is created on the object, unless the lookup finds a setter: the setter of
  \<open>__proto__\<close> on \<open>Object.prototype\<close> makes an object or \<open>null\<close> the prototype of the
  object, ignores any other value, and creates no property.
\<close>

definition set_prop :: "realm \<Rightarrow> variables \<Rightarrow> string \<Rightarrow> jsval \<Rightarrow> error + variables" where
  "set_prop rlm obj k v =
     (case own obj k of
        Some _ \<Rightarrow> Inr (obj\<lparr>own := (own obj)(k \<mapsto> v)\<rparr>)
      | None \<Rightarrow>
          if proto obj = Null then Inr (obj\<lparr>own := (own obj)(k \<mapsto> v)\<rparr>)
          else if proto obj = ObjectPrototype then
            (if k = ''__proto__'' then
               (if is_object v \<or> v = Null then Inr (obj\<lparr>proto := v\<rparr>) else Inr obj)
             else Inr (obj\<lparr>own := (own obj)(k \<mapsto> v)\<rparr>))
          else inherited_set rlm (proto obj) obj k v)"

text \<open>
  The object literal \<open>{ [key]: value }\<close>: a computed key defines an own property, also
  for the key \<open>__proto__\<close>. \<open>{}\<close> is the literal without properties.
\<close>

definition object_literal :: "(string \<times> jsval) list \<Rightarrow> variables" where
  "object_literal ps = \<lparr>own = map_of ps, proto = ObjectPrototype\<rparr>"

subsection \<open>The scope\<close>

text \<open>
  The fields of \<open>Scope\<close>. \<open>LocalScope\<close> has the same four fields (its marker is named
  \<open>_marker\<close>) and the same \<open>getVariable\<close> and \<open>setVariable\<close>. The two weak maps are
  keyed by object identity: \<open>variableScope\<close> by the renderable, \<open>templateCaches\<close> by the
  static-strings array, and hold the identity of the cached Template object.
\<close>

record scope =
  variableScope :: "ref \<rightharpoonup> variables"
  templateCaches :: "ref \<rightharpoonup> ref"
  globalVariables :: variables
  templateMarker :: string

text \<open>The constructor: both weak maps start empty.\<close>

definition new_Scope :: "variables \<Rightarrow> string \<Rightarrow> scope" where
  "new_Scope g marker =
     \<lparr>variableScope = Map.empty, templateCaches = Map.empty,
      globalVariables = g, templateMarker = marker\<rparr>"

text \<open>
  \<open>this._variableScope.get(renderable)?.[key] ?? this._globalVariables[key]\<close>
\<close>

definition getVariable :: "realm \<Rightarrow> scope \<Rightarrow> string \<Rightarrow> ref \<Rightarrow> jsval" where
  "getVariable rlm s k renderable =
     nullish_coalesce
       (case variableScope s renderable of
          None \<Rightarrow> Undefined
        | Some vars \<Rightarrow> get_prop rlm vars k)
       (get_prop rlm (globalVariables s) k)"

text \<open>
  \<open>setVariable\<close>: \<open>variables[key] = value\<close> on the record of the renderable if it has
  one, a new record \<open>{ [key]: value }\<close> otherwise.
\<close>

definition setVariable :: "realm \<Rightarrow> scope \<Rightarrow> string \<Rightarrow> jsval \<Rightarrow> ref \<Rightarrow> error + scope" where
  "setVariable rlm s k v renderable =
     (case variableScope s renderable of
        Some vars \<Rightarrow>
          (case set_prop rlm vars k v of
             Inl e \<Rightarrow> Inl e
           | Inr vars' \<Rightarrow> Inr (s\<lparr>variableScope := (variableScope s)(renderable \<mapsto> vars')\<rparr>))
      | None \<Rightarrow>
          Inr (s\<lparr>variableScope := (variableScope s)(renderable \<mapsto> object_literal [(k, v)])\<rparr>))"

text \<open>
  A run of \<open>setVariable\<close> calls, each with its key, value and renderable; it ends at the
  first call that throws.
\<close>

fun setVariables :: "realm \<Rightarrow> scope \<Rightarrow> (string \<times> jsval \<times> ref) list \<Rightarrow> error + scope" where
  "setVariables rlm s [] = Inr s"
| "setVariables rlm s ((k, v, r) # cs) =
     (case setVariable rlm s k v r of
        Inl e \<Rightarrow> Inl e
      | Inr s' \<Rightarrow> setVariables rlm s' cs)"

text \<open>\<open>getVariable\<close> after a call or a run that returned.\<close>

definition then_getVariable :: "realm \<Rightarrow> error + scope \<Rightarrow> string \<Rightarrow> ref \<Rightarrow> error + jsval" where
  "then_getVariable rlm res k r =
     (case res of Inl e \<Rightarrow> Inl e | Inr s \<Rightarrow> Inr (getVariable rlm s k r))"



subsection \<open>Templates\<close>

text \<open>
  The three parsers the scopes call: \<open>Template.parse\<close>, \<open>TaggedTemplate.parseHTML\<close> and
  \<open>TaggedTemplate.parseSVG\<close>.
\<close>

datatype parser = Parse | ParseHTML | ParseSVG

text \<open>
  A Template object remembers which parser built it, from which static-strings array
  and with which marker.
\<close>

record template_obj =
  parsed_by :: parser
  parsed_from :: ref
  parsed_marker :: string

text \<open>
  What the parsers did: the Template objects in the order they were constructed (the
  identity of a Template is its position), and the invocations that were rejected,
  each with the parser and the static-strings array.
\<close>

record parsing =
  templates :: "template_obj list"
  rejected :: "(parser \<times> ref) list"

text \<open>
  Modelled from the spec: the parsers are not part of the sources at hand. The spec has
  \<open>parse(skeletonParts, marker)\<close> return an immutable Template and reject a marker that
  appears where no valid slot kind can be inferred. Which static-strings arrays a
  parser rejects with a given marker, and with which error, is a parameter of the model
  (\<open>None\<close>: the parser accepts the array). An invocation that is not rejected constructs
  a new Template object.
\<close>

type_synonym rejects = "parser \<Rightarrow> ref \<Rightarrow> string \<Rightarrow> error option"

definition parse ::
  "rejects \<Rightarrow> parser \<Rightarrow> ref \<Rightarrow> string \<Rightarrow> parsing \<Rightarrow> (error + ref) \<times> parsing" where
  "parse rj p strings marker h =
     (case rj p strings marker of
        Some e \<Rightarrow> (Inl e, h\<lparr>rejected := rejected h @ [(p, strings)]\<rparr>)
      | None \<Rightarrow>
          (Inr (length (templates h)),
           h\<lparr>templates := templates h @
                [\<lparr>parsed_by = p, parsed_from = strings, parsed_marker = marker\<rparr>]\<rparr>))"

text \<open>
  The body shared by \<open>Scope.createTemplate\<close>, \<open>LocalScope.createHTMLTemplate\<close> and
  \<open>LocalScope.createSVGTemplate\<close>, which differ in the parser only. When the parser
  throws, the method throws before it writes the cache.
\<close>

definition cachedTemplate ::
  "rejects \<Rightarrow> parser \<Rightarrow> scope \<Rightarrow> ref \<Rightarrow> parsing \<Rightarrow> (error + ref) \<times> scope \<times> parsing" where
  "cachedTemplate rj p s strings h =
     (case templateCaches s strings of
        Some template \<Rightarrow> (Inr template, s, h)
      | None \<Rightarrow>
          (case parse rj p strings (templateMarker s) h of
             (Inl e, h') \<Rightarrow> (Inl e, s, h')
           | (Inr template, h') \<Rightarrow>
               (Inr template,
                s\<lparr>templateCaches := (templateCaches s)(strings \<mapsto> template)\<rparr>, h')))"

definition createTemplate ::
  "rejects \<Rightarrow> scope \<Rightarrow> ref \<Rightarrow> jsval list \<Rightarrow> parsing \<Rightarrow> (error + ref) \<times> scope \<times> parsing" where
  "createTemplate rj s strings vs h = cachedTemplate rj Parse s strings h"

definition createHTMLTemplate ::
  "rejects \<Rightarrow> scope \<Rightarrow> ref \<Rightarrow> jsval list \<Rightarrow> parsing \<Rightarrow> (error + ref) \<times> scope \<times> parsing" where
  "createHTMLTemplate rj s tokens vs h = cachedTemplate rj ParseHTML s tokens h"

definition createSVGTemplate ::
  "rejects \<Rightarrow> scope \<Rightarrow> ref \<Rightarrow> jsval list \<Rightarrow> parsing \<Rightarrow> (error + ref) \<times> scope \<times> parsing" where
  "createSVGTemplate rj s tokens vs h = cachedTemplate rj ParseSVG s tokens h"

text \<open>
  A call of one of the three methods: which one, the static-strings array and the
  values. A run of calls gives the outcome of each call in call order; a call that
  throws leaves the scope as it was and the run goes on.
\<close>

datatype template_call =
    CreateTemplate ref "jsval list"
  | CreateHTMLTemplate ref "jsval list"
  | CreateSVGTemplate ref "jsval list"

fun call_strings :: "template_call \<Rightarrow> ref" where
  "call_strings (CreateTemplate strings _) = strings"
| "call_strings (CreateHTMLTemplate tokens _) = tokens"
| "call_strings (CreateSVGTemplate tokens _) = tokens"

fun invoke ::
  "rejects \<Rightarrow> scope \<Rightarrow> parsing \<Rightarrow> template_call \<Rightarrow> (error + ref) \<times> scope \<times> parsing" where
  "invoke rj s h (CreateTemplate strings vs) = createTemplate rj s strings vs h"
| "invoke rj s h (CreateHTMLTemplate tokens vs) = createHTMLTemplate rj s tokens vs h"
| "invoke rj s h (CreateSVGTemplate tokens vs) = createSVGTemplate rj s tokens vs h"

fun template_calls ::
  "rejects \<Rightarrow> scope \<Rightarrow> parsing \<Rightarrow> template_call list
   \<Rightarrow> (error + ref) list \<times> scope \<times> parsing" where
  "template_calls rj s h [] = ([], s, h)"
| "template_calls rj s h (c # cs) =
     (let (t, s', h') = invoke rj s h c;
          (ts, s'', h'') = template_calls rj s' h' cs
      in (t # ts, s'', h''))"




section \<open>The updater\<close>

text \<open>
  Modelled from the spec: the Updater is not part of the sources at hand. The spec has it
  receive update requests from blocks and runtime-queued mutation effects. It is
  modelled by what it received: the blocks passed to \<open>requestUpdate\<close> and the parts
  passed to \<open>enqueueMutationEffect\<close>, each in call order.
\<close>

record updater =
  requestedUpdates :: "ref list"
  mutationEffects :: "ref list"

definition requestUpdate :: "updater \<Rightarrow> ref \<Rightarrow> updater" where
  "requestUpdate u block = u\<lparr>requestedUpdates := requestedUpdates u @ [block]\<rparr>"

definition enqueueMutationEffect :: "updater \<Rightarrow> ref \<Rightarrow> updater" where
  "enqueueMutationEffect u p = u\<lparr>mutationEffects := mutationEffects u @ [p]\<rparr>"

section \<open>Block\<close>

text \<open>\<open>BlockFlag\<close>. JavaScript's bitwise operators work on 32-bit integers.\<close>

definition MOUNTED :: "32 word" where
  "MOUNTED = 1"

definition DIRTY :: "32 word" where
  "DIRTY = 2"

definition UPDATING :: "32 word" where
  "UPDATING = 4"

text \<open>The result of a render function: \<open>{ template, values }\<close> (\<open>values\<close> is written \<open>values'\<close>).\<close>

record template_result =
  template :: ref
  values' :: "jsval list"

text \<open>
  The fields of \<open>Block\<close>. Templates, mount points, hooks and the parent are objects,
  known by their identity; \<open>null\<close> is \<open>None\<close>.
\<close>

record ('p, 'c) block =
  type :: "'p \<Rightarrow> 'c \<Rightarrow> template_result"
  pendingProps :: 'p
  pendingMountPoint :: "ref option"
  memoizedMountPoint :: "ref option"
  memoizedProps :: 'p
  memoizedTemplate :: "ref option"
  memoizedValues :: "jsval list"
  cachedMountPoints :: "(ref \<rightharpoonup> ref) option"
  flags :: "32 word"
  hooks :: "ref list"
  parent :: "ref option"

text \<open>The constructor.\<close>

definition new_Block ::
  "('p \<Rightarrow> 'c \<Rightarrow> template_result) \<Rightarrow> 'p \<Rightarrow> ref option \<Rightarrow> ('p, 'c) block" where
  "new_Block ty props par =
     \<lparr>type = ty, pendingProps = props, pendingMountPoint = None,
      memoizedMountPoint = None, memoizedProps = props, memoizedTemplate = None,
      memoizedValues = [], cachedMountPoints = None, flags = DIRTY, hooks = [],
      parent = par\<rparr>"

definition isDirty :: "('p, 'c) block \<Rightarrow> bool" where
  "isDirty b = (flags b AND DIRTY \<noteq> 0)"

text \<open>\<open>setProps\<close>, for props that are JavaScript values: \<open>newProps !== this._pendingProps\<close>.\<close>

definition setProps :: "(jsval, 'c) block \<Rightarrow> jsval \<Rightarrow> (jsval, 'c) block" where
  "setProps b newProps =
     (if \<not> strict_equals newProps (pendingProps b)
      then b\<lparr>pendingProps := newProps, flags := flags b OR DIRTY\<rparr>
      else b)"

text \<open>\<open>forceUpdate\<close>; \<open>this\<close> is the identity of the block.\<close>

definition forceUpdate ::
  "ref \<Rightarrow> ('p, 'c) block \<Rightarrow> updater \<Rightarrow> ('p, 'c) block \<times> updater" where
  "forceUpdate this b u =
     (if flags b AND MOUNTED = 0 \<or> flags b AND UPDATING \<noteq> 0
      then (b, u)
      else (b\<lparr>flags := flags b OR (DIRTY OR UPDATING)\<rparr>, requestUpdate u this))"

text \<open>\<open>n\<close> consecutive calls of \<open>forceUpdate\<close> on the same block.\<close>

fun forceUpdates ::
  "nat \<Rightarrow> ref \<Rightarrow> ('p, 'c) block \<Rightarrow> updater \<Rightarrow> ('p, 'c) block \<times> updater" where
  "forceUpdates 0 this b u = (b, u)"
| "forceUpdates (Suc n) this b u =
     (let (b', u') = forceUpdate this b u in forceUpdates n this b' u')"

text \<open>
  The two methods of \<open>TemplateInterface\<close> that \<open>render\<close> calls are parameters of the
  model: \<open>mount\<close> takes the template, the values and the updater and returns a mount
  point; \<open>patch\<close> takes the template, the mount point whose parts it patches, the old and
  the new values and the updater.
\<close>

record template_interface =
  mount :: "ref \<Rightarrow> jsval list \<Rightarrow> updater \<Rightarrow> ref \<times> updater"
  patch :: "ref \<Rightarrow> ref \<Rightarrow> jsval list \<Rightarrow> jsval list \<Rightarrow> updater \<Rightarrow> updater"

text \<open>
  The four assignments that end \<open>render\<close>: the flags are XORed with \<open>DIRTY | UPDATING\<close>
  and the pending props, the values and the template become the memoized ones.
\<close>

definition commit :: "template_result \<Rightarrow> ('p, 'c) block \<Rightarrow> ('p, 'c) block" where
  "commit r b =
     b\<lparr>flags := flags b XOR (DIRTY OR UPDATING),
       memoizedProps := pendingProps b,
       memoizedValues := values' r,
       memoizedTemplate := Some (template r)\<rparr>"

text \<open>
  \<open>render\<close>. \<open>createContext\<close> is the method of the scope. The weak map refuses the key
  \<open>null\<close>: storing the old mount point under a memoized template that is \<open>null\<close> throws a
  \<open>TypeError\<close>.
\<close>

definition render ::
  "template_interface \<Rightarrow> (ref \<Rightarrow> updater \<Rightarrow> 'c) \<Rightarrow> ref \<Rightarrow> ('p, 'c) block \<Rightarrow> updater
   \<Rightarrow> error + ('p, 'c) block \<times> updater" where
  "render ti createContext this b u =
     (let context = createContext this u;
          r = type b (pendingProps b) context
      in case memoizedMountPoint b of
           None \<Rightarrow>
             (let (mp, u') = mount ti (template r) (values' r) u
              in Inr (commit r (b\<lparr>pendingMountPoint := Some mp\<rparr>), u'))
         | Some memoized \<Rightarrow>
             if memoizedTemplate b \<noteq> Some (template r) then
               (let (cache, mp, u') =
                  (case cachedMountPoints b of
                     None \<Rightarrow>
                       (let (mp, u') = mount ti (template r) (values' r) u
                        in (Map.empty, mp, u'))
                   | Some cache \<Rightarrow>
                       (case cache (template r) of
                          Some mp \<Rightarrow> (cache, mp, u)
                        | None \<Rightarrow>
                            (let (mp, u') = mount ti (template r) (values' r) u
                             in (cache, mp, u'))))
                in case memoizedTemplate b of
                     None \<Rightarrow> Inl (TypeError ''Invalid value used as weak map key'')
                   | Some old \<Rightarrow>
                       Inr (commit r
                              (b\<lparr>pendingMountPoint := Some mp,
                                 cachedMountPoints := Some (cache(old \<mapsto> memoized))\<rparr>), u'))
             else
               Inr (commit r b,
                    patch ti (template r) memoized (memoizedValues b) (values' r) u))"

section \<open>The unsafe-SVG directive\<close>

text \<open>
  What a Part may hold as its value: an \<open>UnsafeSVG\<close> directive object with its content,
  an \<open>UnsafeSVGChild\<close> with its content, start node and end node, or another value.
\<close>

datatype part_value =
    UnsafeSVG string
  | UnsafeSVGChild string "ref option" "ref option"
  | OtherValue jsval

text \<open>
  Modelled from the spec: the Part classes are not part of the sources at hand. The spec
  has a Part be a handle to one dynamic slot (a child region, an attribute, a property,
  an event or raw text) that holds the currently-bound value (the field \<open>value'\<close>) and
  exposes \<open>setValue\<close>.
\<close>

datatype part_class = ChildPart | AttributePart | PropertyPart | EventPart | RawTextPart

record part =
  part_class :: part_class
  value' :: part_value

definition setValue :: "part \<Rightarrow> part_value \<Rightarrow> updater \<Rightarrow> part \<times> updater" where
  "setValue p v u = (p\<lparr>value' := v\<rparr>, u)"

definition must_be_child :: string where
  "must_be_child =
     CHR 0x22 # ''UnsafeSVG'' @ CHR 0x22 # '' directive must be used in an arbitrary child.''"

text \<open>
  \<open>UnsafeSVG[directiveSymbol]\<close>, for the directive with the given content. \<open>this_part\<close> is
  the identity of the part. The outcome is the error thrown, if any, with the part and
  the updater as the call leaves them.
\<close>

definition directiveSymbol ::
  "string \<Rightarrow> ref \<Rightarrow> part \<Rightarrow> updater \<Rightarrow> error option \<times> part \<times> updater" where
  "directiveSymbol content this_part p u =
     (if part_class p \<noteq> ChildPart then (Some (Error must_be_child), p, u)
      else if (case value' p of
                 UnsafeSVGChild c _ _ \<Rightarrow> c = content
               | _ \<Rightarrow> False)
      then (None, p, u)
      else
        (let (p', u') = setValue p (UnsafeSVG content) u
         in (None, p', enqueueMutationEffect u' this_part)))"

section \<open>The binding protocol\<close>

text \<open>
  A value handed to the binding protocol is a plain value or a directive value; a
  directive value carries the tag of its directive kind.
\<close>

datatype val = Plain jsval | Tagged nat jsval

fun kind_of :: "val \<Rightarrow> nat option" where
  "kind_of (Plain _) = None"
| "kind_of (Tagged k _) = Some k"

text \<open>
  What the directives do to their sub-bindings and collaborators is recorded as a trace
  of events, oldest first: a Binding was created for a part and a value; \<open>bind\<close> was
  called on a Binding after it was given a value (with the \<open>forceUpdate\<close> argument of
  \<open>updateBinding\<close>); \<open>unbind\<close> or \<open>disconnect\<close> was called on a Binding; a function held
  by a directive was invoked.
\<close>

datatype event =
    Created ref ref val
  | Bound ref val bool
  | Unbound ref
  | Disconnected ref
  | Invoked string

text \<open>
  The world of Binding objects: how many were allocated (the next one gets this number
  as its identity), the directive kind each one accepts, the part each one belongs to,
  and the trace.
\<close>

record world =
  allocated :: nat
  accepted :: "ref \<Rightarrow> nat option"
  part_of :: "ref \<Rightarrow> ref"
  trace :: "event list"

definition record_event :: "event \<Rightarrow> world \<Rightarrow> world" where
  "record_event e w = w\<lparr>trace := trace w @ [e]\<rparr>"

text \<open>The methods \<open>unbind\<close> and \<open>disconnect\<close> of a sub-binding.\<close>

definition unbind :: "ref \<Rightarrow> world \<Rightarrow> world" where
  "unbind b w = record_event (Unbound b) w"

definition disconnect :: "ref \<Rightarrow> world \<Rightarrow> world" where
  "disconnect b w = record_event (Disconnected b) w"

text \<open>
  Modelled from the spec: \<open>createBinding\<close> is not part of the sources at hand. The spec
  has \<open>createBinding(part, value, updater)\<close> produce a Binding for the part and the
  value, through the factory of a directive value or as a default Binding; it is a new
  object, bound to the value.
\<close>

definition createBinding :: "ref \<Rightarrow> val \<Rightarrow> world \<Rightarrow> ref \<times> world" where
  "createBinding p v w =
     (allocated w,
      record_event (Created (allocated w) p v)
        (w\<lparr>allocated := Suc (allocated w),
           accepted := (accepted w)(allocated w := kind_of v),
           part_of := (part_of w)(allocated w := p)\<rparr>))"

text \<open>
  Modelled from the spec: \<open>updateBinding\<close> is not part of the sources at hand. The spec
  has \<open>updateBinding(oldBinding, newValue, updater, forceReplace?)\<close> delegate to the
  existing Binding's \<open>bind\<close> if the new value's directive kind matches the kind the
  Binding accepts, and otherwise unbind the old Binding, disconnect it and construct a
  new one via \<open>createBinding\<close>.
\<close>

definition updateBinding :: "ref \<Rightarrow> val \<Rightarrow> bool \<Rightarrow> world \<Rightarrow> ref \<times> world" where
  "updateBinding b v force w =
     (if kind_of v = accepted w b then (b, record_event (Bound b v force) w)
      else createBinding (part_of w b) v (disconnect b (unbind b w)))"

section \<open>The condition directive\<close>

text \<open>\<open>ValueOrFunction<T>\<close>: a value, or a function of no arguments that returns one.\<close>

datatype 'a value_or_function = Value 'a | Function "unit \<Rightarrow> 'a"

text \<open>
  \<open>typeof x === 'function' ? x() : x\<close>; the invocation of the function is recorded under
  the name of the field that holds it.
\<close>

fun evaluate :: "string \<Rightarrow> 'a value_or_function \<Rightarrow> world \<Rightarrow> 'a \<times> world" where
  "evaluate name (Value v) w = (v, w)"
| "evaluate name (Function f) w = (f (), record_event (Invoked name) w)"

text \<open>The truthiness of a condition that is not invoked: a function is truthy.\<close>

fun truthy :: "bool value_or_function \<Rightarrow> bool" where
  "truthy (Value c) = c"
| "truthy (Function f) = True"

record condition_directive =
  condition :: "bool value_or_function"
  trueCase :: "val value_or_function"
  falseCase :: "val value_or_function"

record condition_binding =
  part :: ref
  directive :: condition_directive
  trueBinding :: "ref option"
  falseBinding :: "ref option"

text \<open>The setter \<open>value\<close>: the binding is given a new directive.\<close>

definition ConditionBinding_set_value ::
  "condition_binding \<Rightarrow> condition_directive \<Rightarrow> condition_binding" where
  "ConditionBinding_set_value cb d = cb\<lparr>directive := d\<rparr>"

text \<open>\<open>binding?.unbind(updater)\<close> and \<open>binding?.disconnect()\<close>.\<close>

fun unbind_opt :: "ref option \<Rightarrow> world \<Rightarrow> world" where
  "unbind_opt None w = w"
| "unbind_opt (Some b) w = unbind b w"

fun disconnect_opt :: "ref option \<Rightarrow> world \<Rightarrow> world" where
  "disconnect_opt None w = w"
| "disconnect_opt (Some b) w = disconnect b w"

text \<open>\<open>ConditionBinding.bind\<close>\<close>

definition ConditionBinding_bind ::
  "condition_binding \<Rightarrow> world \<Rightarrow> condition_binding \<times> world" where
  "ConditionBinding_bind cb w =
     (let (c, w0) = evaluate ''condition'' (condition (directive cb)) w
      in if c then
           (let (newValue, w1) = evaluate ''trueCase'' (trueCase (directive cb)) w0;
                w2 = unbind_opt (falseBinding cb) w1;
                (b, w3) =
                  (case trueBinding cb of
                     Some t \<Rightarrow> updateBinding t newValue False w2
                   | None \<Rightarrow> createBinding (part cb) newValue w2)
            in (cb\<lparr>trueBinding := Some b\<rparr>, w3))
         else
           (let (newValue, w1) = evaluate ''falseCase'' (falseCase (directive cb)) w0;
                w2 = unbind_opt (trueBinding cb) w1;
                (b, w3) =
                  (case falseBinding cb of
                     Some f \<Rightarrow> updateBinding f newValue False w2
                   | None \<Rightarrow> createBinding (part cb) newValue w2)
            in (cb\<lparr>falseBinding := Some b\<rparr>, w3)))"

text \<open>\<open>ConditionBinding.unbind\<close>\<close>

definition ConditionBinding_unbind :: "condition_binding \<Rightarrow> world \<Rightarrow> world" where
  "ConditionBinding_unbind cb w =
     (if truthy (condition (directive cb))
      then disconnect_opt (falseBinding cb) (unbind_opt (trueBinding cb) w)
      else disconnect_opt (trueBinding cb) (unbind_opt (falseBinding cb) w))"

text \<open>\<open>ConditionBinding.disconnect\<close>\<close>

definition ConditionBinding_disconnect :: "condition_binding \<Rightarrow> world \<Rightarrow> world" where
  "ConditionBinding_disconnect cb w =
     disconnect_opt (falseBinding cb) (disconnect_opt (trueBinding cb) w)"

text \<open>\<open>ConditionDirective[directiveTag]\<close>: a new binding, bound at once.\<close>

definition ConditionDirective_directiveTag ::
  "condition_directive \<Rightarrow> ref \<Rightarrow> world \<Rightarrow> condition_binding \<times> world" where
  "ConditionDirective_directiveTag d p w =
     ConditionBinding_bind
       \<lparr>part = p, directive = d, trueBinding = None, falseBinding = None\<rparr> w"

text \<open>
  The events of a trace that are calls on a given Binding, and the Bindings that a
  trace binds (by creating them bound, or by \<open>bind\<close>).
\<close>

fun target :: "event \<Rightarrow> ref option" where
  "target (Created b _ _) = Some b"
| "target (Bound b _ _) = Some b"
| "target (Unbound b) = Some b"
| "target (Disconnected b) = Some b"
| "target (Invoked _) = None"

definition calls_on :: "ref \<Rightarrow> event list \<Rightarrow> event list" where
  "calls_on b es = filter (\<lambda>e. target e = Some b) es"

fun binds :: "event list \<Rightarrow> ref list" where
  "binds [] = []"
| "binds (Created b _ _ # es) = b # binds es"
| "binds (Bound b _ _ # es) = b # binds es"
| "binds (_ # es) = binds es"

text \<open>The events a step added to the trace.\<close>

definition added :: "world \<Rightarrow> world \<Rightarrow> event list" where
  "added w w' = drop (length (trace w)) (trace w')"

text \<open>
  For stating what \<open>bind\<close> does: the result of a value-or-function, the sub-binding of
  the branch a condition selects and that of the other branch, and an optional
  reference as a list.
\<close>

fun result_of :: "'a value_or_function \<Rightarrow> 'a" where
  "result_of (Value v) = v"
| "result_of (Function f) = f ()"

definition selected :: "bool \<Rightarrow> condition_binding \<Rightarrow> ref option" where
  "selected c cb = (if c then trueBinding cb else falseBinding cb)"

definition other :: "bool \<Rightarrow> condition_binding \<Rightarrow> ref option" where
  "other c cb = (if c then falseBinding cb else trueBinding cb)"

fun opt_list :: "'a option \<Rightarrow> 'a list" where
  "opt_list None = []"
| "opt_list (Some x) = [x]"

text \<open>
  The events of one branch of \<open>bind\<close>, given the sub-binding of the selected branch,
  that of the other branch, the part, the new value and the world before the call; and
  the sub-binding the selected branch has afterwards.
\<close>

definition branch_events ::
  "ref option \<Rightarrow> ref option \<Rightarrow> ref \<Rightarrow> val \<Rightarrow> world \<Rightarrow> event list" where
  "branch_events sel oth p v w =
     map Unbound (opt_list oth) @
     (case sel of
        None \<Rightarrow> [Created (allocated w) p v]
      | Some t \<Rightarrow>
          if kind_of v = accepted w t then [Bound t v False]
          else [Unbound t, Disconnected t, Created (allocated w) (part_of w t) v])"

definition branch_result :: "ref option \<Rightarrow> val \<Rightarrow> world \<Rightarrow> ref" where
  "branch_result sel v w =
     (case sel of None \<Rightarrow> allocated w
      | Some t \<Rightarrow> if kind_of v = accepted w t then t else allocated w)"

section \<open>The choice directive\<close>

text \<open>
  A JavaScript \<open>Map\<close> as the list of its entries in insertion order. Keys are compared
  by SameValueZero; \<open>set\<close> replaces the value of an entry in place or appends a new
  entry, storing the key \<open>-0\<close> as \<open>+0\<close>.
\<close>

fun Map_get :: "(jsval \<times> 'a) list \<Rightarrow> jsval \<Rightarrow> 'a option" where
  "Map_get [] k = None"
| "Map_get ((k', v) # m) k = (if same_value_zero k' k then Some v else Map_get m k)"

fun Map_set :: "(jsval \<times> 'a) list \<Rightarrow> jsval \<Rightarrow> 'a \<Rightarrow> (jsval \<times> 'a) list" where
  "Map_set [] k v = [(zero_norm k, v)]"
| "Map_set ((k', v') # m) k v =
     (if same_value_zero k' k then (k', v) # m else (k', v') # Map_set m k v)"

record choice_directive =
  key :: jsval
  factory :: "jsval \<Rightarrow> val"

record choice_binding =
  currentBinding :: ref
  currentKey :: jsval
  choiceDirective :: choice_directive
  cachedBindings :: "(jsval \<times> ref) list"

text \<open>\<open>ChoiceDirective[directiveTag]\<close> and the constructor of \<open>ChoiceBinding\<close>.\<close>

definition ChoiceDirective_directiveTag ::
  "choice_directive \<Rightarrow> ref \<Rightarrow> world \<Rightarrow> choice_binding \<times> world" where
  "ChoiceDirective_directiveTag d p w =
     (let v = factory d (key d);
          (initialBinding, w') = createBinding p v (record_event (Invoked ''factory'') w)
      in (\<lparr>currentBinding = initialBinding, currentKey = key d, choiceDirective = d,
           cachedBindings = []\<rparr>, w'))"

text \<open>The setter \<open>value\<close>: the binding is given a new directive.\<close>

definition ChoiceBinding_set_value ::
  "choice_binding \<Rightarrow> choice_directive \<Rightarrow> choice_binding" where
  "ChoiceBinding_set_value cb d = cb\<lparr>choiceDirective := d\<rparr>"

text \<open>\<open>ChoiceBinding.bind\<close>\<close>

definition ChoiceBinding_bind :: "choice_binding \<Rightarrow> world \<Rightarrow> choice_binding \<times> world" where
  "ChoiceBinding_bind cb w =
     (let oldKey = currentKey cb;
          newKey = key (choiceDirective cb);
          newValue = factory (choiceDirective cb) newKey;
          w0 = record_event (Invoked ''factory'') w
      in if same_value oldKey newKey then
           (let (b, w1) = updateBinding (currentBinding cb) newValue False w0
            in (cb\<lparr>currentBinding := b\<rparr>, w1))
         else
           (let w1 = unbind (currentBinding cb) w0;
                cache = Map_set (cachedBindings cb) oldKey (currentBinding cb);
                (b, w2) =
                  (case Map_get cache newKey of
                     Some cachedBinding \<Rightarrow> updateBinding cachedBinding newValue True w1
                   | None \<Rightarrow> createBinding (part_of w1 (currentBinding cb)) newValue w1)
            in (cb\<lparr>currentBinding := b, cachedBindings := cache, currentKey := newKey\<rparr>,
                w2)))"

text \<open>
  The loop of \<open>unbind\<close> and \<open>disconnect\<close> over the entries of the cache, in insertion
  order: \<open>if (key !== this._directive.key) binding.disconnect()\<close>.
\<close>

fun disconnect_others :: "jsval \<Rightarrow> (jsval \<times> ref) list \<Rightarrow> world \<Rightarrow> world" where
  "disconnect_others k [] w = w"
| "disconnect_others k ((key', binding) # m) w =
     disconnect_others k m (if \<not> strict_equals key' k then disconnect binding w else w)"

text \<open>\<open>ChoiceBinding.unbind\<close>\<close>

definition ChoiceBinding_unbind :: "choice_binding \<Rightarrow> world \<Rightarrow> world" where
  "ChoiceBinding_unbind cb w =
     disconnect_others (key (choiceDirective cb)) (cachedBindings cb)
       (unbind (currentBinding cb) w)"

text \<open>\<open>ChoiceBinding.disconnect\<close>\<close>

definition ChoiceBinding_disconnect :: "choice_binding \<Rightarrow> world \<Rightarrow> world" where
  "ChoiceBinding_disconnect cb w =
     disconnect_others (key (choiceDirective cb)) (cachedBindings cb) w"

text \<open>The world before any Binding exists.\<close>

definition empty_world :: world where
  "empty_world =
     \<lparr>allocated = 0, accepted = (\<lambda>b. None), part_of = (\<lambda>b. 0), trace = []\<rparr>"

section \<open>Example objects\<close>

text \<open>
  A mounted block whose props changed since its last render (\<open>MOUNTED | DIRTY\<close>), with a
  render function that returns template 10 and its props as the only value, and a
  template interface whose \<open>mount\<close> returns mount point 20.
\<close>

definition example_block :: "(jsval, unit) block" where
  "example_block =
     (new_Block (\<lambda>props context. \<lparr>template = 10, values' = [props]\<rparr>) (Num 1) None)
       \<lparr>pendingProps := Num 2, pendingMountPoint := Some 20, memoizedMountPoint := Some 20,
        memoizedTemplate := Some 10, memoizedValues := [Num 1],
        flags := MOUNTED OR DIRTY\<rparr>"

definition example_templates :: template_interface where
  "example_templates =
     \<lparr>mount = (\<lambda>t vs u. (20, u)), patch = (\<lambda>t mp old new u. u)\<rparr>"

text \<open>
  A condition binding created with a true condition, rebound with a false one and
  rebound with a true one again: sub-binding 0 is the true branch, 1 the false branch.
\<close>

definition yes_no :: "bool value_or_function \<Rightarrow> condition_directive" where
  "yes_no c =
     \<lparr>condition = c, trueCase = Value (Plain (Str ''yes'')),
      falseCase = Value (Plain (Str ''no''))\<rparr>"

definition flipped_twice :: "condition_binding \<times> world" where
  "flipped_twice =
     (let (cb, w) = ConditionDirective_directiveTag (yes_no (Value True)) 9 empty_world;
          (cb1, w1) =
            ConditionBinding_bind (ConditionBinding_set_value cb (yes_no (Value False))) w
      in ConditionBinding_bind (ConditionBinding_set_value cb1 (yes_no (Value True))) w1)"

text \<open>A condition binding as \<open>directiveTag\<close> creates it with a true condition.\<close>

definition created_true :: "condition_binding \<times> world" where
  "created_true = ConditionDirective_directiveTag (yes_no (Value True)) 9 empty_world"

text \<open>
  A choice binding created with the key \<open>a\<close>, rebound with the key \<open>b\<close> and rebound
  with the key \<open>a\<close> again; the factory returns the key as a plain value.
\<close>

definition keyed :: "jsval \<Rightarrow> choice_directive" where
  "keyed k = \<lparr>key = k, factory = Plain\<rparr>"

definition there_and_back :: "jsval \<Rightarrow> jsval \<Rightarrow> choice_binding \<times> world" where
  "there_and_back a b =
     (let (cb, w) = ChoiceDirective_directiveTag (keyed a) 9 empty_world;
          (cb1, w1) = ChoiceBinding_bind (ChoiceBinding_set_value cb (keyed b)) w
      in ChoiceBinding_bind (ChoiceBinding_set_value cb1 (keyed a)) w1)"

text \<open>
  The same choice binding after the first rebinding only; and rebound with the key \<open>a\<close>
  again by a directive whose factory returns a directive value of kind 1.
\<close>

definition choice_away :: "jsval \<Rightarrow> jsval \<Rightarrow> choice_binding \<times> world" where
  "choice_away a b =
     (let (cb, w) = ChoiceDirective_directiveTag (keyed a) 9 empty_world
      in ChoiceBinding_bind (ChoiceBinding_set_value cb (keyed b)) w)"

definition back_as_directive :: "jsval \<Rightarrow> jsval \<Rightarrow> choice_binding \<times> world" where
  "back_as_directive a b =
     (let (cb1, w1) = choice_away a b
      in ChoiceBinding_bind
           (ChoiceBinding_set_value cb1 \<lparr>key = a, factory = Tagged 1\<rparr>) w1)"

text \<open>
  A realm in which a read through an unknown prototype gives \<open>undefined\<close> and an
  assignment through one does nothing; a global record with the variables \<open>x\<close> and
  \<open>toString\<close>.
\<close>

definition standard_realm :: realm where
  "standard_realm =
     \<lparr>inherited_get = (\<lambda>p obj k. Undefined), inherited_set = (\<lambda>p obj k v. Inr obj)\<rparr>"

definition global_x :: variables where
  "global_x = object_literal [(''x'', Num 1), (''toString'', Str ''g'')]"



section \<open>Properties of the scope\<close>

subsection \<open>Variables\<close>














lemmas scope_example_defs =
  then_getVariable_def getVariable_def setVariable_def new_Scope_def get_prop_def
  set_prop_def object_literal_def global_x_def standard_realm_def nullish_coalesce_def
  nullish_def ObjectPrototype_def Object_prototype_get_def Object_prototype_methods_def
  is_object_def




text \<open>Inherited names and the setter of \<open>__proto__\<close>.\<close>

lemma getVariable_inherited_name:
  "then_getVariable standard_realm
     (setVariable standard_realm (new_Scope global_x ''m'') ''a'' (Num 1) 7) ''toString'' 7 =
     Inr (Intrinsic ''Object.prototype.toString'')"
  by (simp add: scope_example_defs)

lemma setVariable_proto_not_stored:
  "then_getVariable standard_realm
     (setVariables standard_realm (new_Scope global_x ''m'')
        [(''a'', Num 1, 7), (''__proto__'', Num 5, 7)]) ''__proto__'' 7 =
     Inr (Intrinsic ''Object.prototype'')"
  by (simp add: scope_example_defs)

subsection \<open>Template cache\<close>




lemma cachedTemplate_marker:
  "cachedTemplate rj p s k h = (x, s', h') \<Longrightarrow> templateMarker s' = templateMarker s"
  by (auto simp: cachedTemplate_def parse_def split: option.splits)

lemma cachedTemplate_thrown:
  "cachedTemplate rj p s k h = (Inl e, s', h') \<Longrightarrow> s' = s"
  by (auto simp: cachedTemplate_def parse_def split: option.splits)



lemma invoke_cachedTemplate:
  "\<exists>p. invoke rj s h c = cachedTemplate rj p s (call_strings c) h"
  by (cases c) (auto simp: createTemplate_def createHTMLTemplate_def createSVGTemplate_def)




lemma invoke_marker:
  assumes "invoke rj s h c = (x, s', h')"
  shows "templateMarker s' = templateMarker s"
proof -
  obtain p where "cachedTemplate rj p s (call_strings c) h = (x, s', h')"
    using invoke_cachedTemplate [of rj s h c] assms(1) by auto
  then show ?thesis by (rule cachedTemplate_marker)
qed



lemma invoke_miss:
  assumes "invoke rj s h c = (x, s', h')" "templateCaches s k = None" "call_strings c \<noteq> k"
  shows "templateCaches s' k = None"
proof -
  obtain p where "cachedTemplate rj p s (call_strings c) h = (x, s', h')"
    using invoke_cachedTemplate [of rj s h c] assms(1) by auto
  then show ?thesis
    using assms(2,3) by (auto simp: cachedTemplate_def parse_def split: option.splits)
qed

lemma template_calls_Cons:
  assumes "template_calls rj s h (c # cs) = (ts, s', h')"
  obtains t s1 h1 ts1 where "invoke rj s h c = (t, s1, h1)"
    "template_calls rj s1 h1 cs = (ts1, s', h')" "ts = t # ts1"
  using assms by (auto split: prod.splits)


lemma template_calls_marker:
  "template_calls rj s h cs = (ts, s', h') \<Longrightarrow> templateMarker s' = templateMarker s"
proof (induction cs arbitrary: s h ts)
  case Nil
  then show ?case by simp
next
  case (Cons c cs)
  from Cons.prems obtain t s1 h1 ts1 where c: "invoke rj s h c = (t, s1, h1)"
    and r: "template_calls rj s1 h1 cs = (ts1, s', h')"
    by (rule template_calls_Cons)
  show ?case using Cons.IH [OF r] invoke_marker [OF c] by simp
qed









section \<open>Properties of the block\<close>

lemma flags_after_force1:
  fixes x :: "32 word"
  shows "(x OR (DIRTY OR UPDATING)) AND UPDATING = UPDATING"
  unfolding DIRTY_def UPDATING_def
  by (simp add: bit.conj_disj_distrib2)

lemma flags_after_force2:
  fixes x :: "32 word"
  shows "(x OR (DIRTY OR UPDATING)) AND DIRTY = DIRTY"
  unfolding DIRTY_def UPDATING_def
  by (simp add: bit.conj_disj_distrib2)

lemma flags_after_force3:
  fixes x :: "32 word"
  shows "(x OR (DIRTY OR UPDATING)) AND MOUNTED = x AND MOUNTED"
  unfolding DIRTY_def UPDATING_def MOUNTED_def
  by (simp add: bit.conj_disj_distrib2)

lemma flag_values: "UPDATING \<noteq> 0" "DIRTY \<noteq> 0" "MOUNTED \<noteq> 0"
  by (simp_all add: DIRTY_def UPDATING_def MOUNTED_def)

lemma forceUpdate_eq:
  "forceUpdate this b u =
     (if flags b AND MOUNTED \<noteq> 0 \<and> flags b AND UPDATING = 0
      then (b\<lparr>flags := flags b OR (DIRTY OR UPDATING)\<rparr>,
            u\<lparr>requestedUpdates := requestedUpdates u @ [this]\<rparr>)
      else (b, u))"
  by (simp add: forceUpdate_def requestUpdate_def)

lemma forceUpdate_noop:
  "flags b AND UPDATING \<noteq> 0 \<Longrightarrow> forceUpdates n this b u = (b, u)"
  by (induction n) (simp_all add: forceUpdate_def)

lemma forceUpdates_Suc:
  assumes "flags b AND MOUNTED \<noteq> 0" "flags b AND UPDATING = 0"
  shows "forceUpdates (Suc n) this b u = forceUpdate this b u"
proof -
  have "flags (fst (forceUpdate this b u)) AND UPDATING \<noteq> 0"
    using assms by (simp add: forceUpdate_eq flags_after_force1 flag_values)
  then show ?thesis
    by (cases "forceUpdate this b u") (simp add: forceUpdate_noop)
qed

lemma commit_fields:
  "flags (commit r b) = flags b XOR (DIRTY OR UPDATING)"
  "memoizedProps (commit r b) = pendingProps b"
  "memoizedValues (commit r b) = values' r"
  "memoizedTemplate (commit r b) = Some (template r)"
  by (simp_all add: commit_def)

lemma render_commits_imp:
  "render ti cc this b u = Inr (b', u') \<longrightarrow>
     flags b' = flags b XOR (DIRTY OR UPDATING)
       \<and> memoizedProps b' = pendingProps b
       \<and> memoizedValues b' = values' (type b (pendingProps b) (cc this u))
       \<and> memoizedTemplate b' = Some (template (type b (pendingProps b) (cc this u)))"
  unfolding render_def Let_def
  by (auto simp: commit_fields split: option.split prod.split)

lemma toggles:
  "(MOUNTED OR DIRTY) XOR (DIRTY OR UPDATING) = MOUNTED OR UPDATING"
  "(MOUNTED OR UPDATING) AND UPDATING \<noteq> 0"
  "(MOUNTED OR UPDATING) AND DIRTY = 0"
  "DIRTY XOR (DIRTY OR UPDATING) = UPDATING"
  "(DIRTY OR UPDATING) XOR (DIRTY OR UPDATING) = 0"
  "(MOUNTED OR (DIRTY OR UPDATING)) XOR (DIRTY OR UPDATING) = MOUNTED"
  by (simp_all add: DIRTY_def UPDATING_def MOUNTED_def)

text \<open>
  C1: \<open>render\<close> commits the pending props, the values and the template as memoized, but
  it does not clear \<open>DIRTY\<close> and \<open>UPDATING\<close>: it XORs the flags with \<open>DIRTY | UPDATING\<close>.
  Whenever \<open>render\<close> returns, the flags are the old flags with both bits toggled: from
  the Mounted-dirty state (\<open>MOUNTED | DIRTY\<close>) it returns with \<open>MOUNTED | UPDATING\<close>, and
  from the state the constructor leaves (\<open>DIRTY\<close>) it returns with \<open>UPDATING\<close>. In both,
  \<open>UPDATING\<close> is set on return.
\<close>

theorem render_toggles_flags:
  assumes "render ti cc this b u = Inr (b', u')"
  shows "flags b' = flags b XOR (DIRTY OR UPDATING)
       \<and> (flags b = MOUNTED OR DIRTY \<longrightarrow>
            flags b' = MOUNTED OR UPDATING \<and> flags b' AND UPDATING \<noteq> 0)
       \<and> (flags b = DIRTY \<longrightarrow> flags b' = UPDATING \<and> flags b' AND UPDATING \<noteq> 0)
       \<and> memoizedProps b' = pendingProps b
       \<and> memoizedValues b' = values' (type b (pendingProps b) (cc this u))
       \<and> memoizedTemplate b' = Some (template (type b (pendingProps b) (cc this u)))"
  using assms render_commits_imp [of ti cc this b u b' u']
  by (simp add: toggles flag_values)

theorem render_toggles_flags_witness:
  "render example_templates (\<lambda>this u. ()) 1 example_block
     \<lparr>requestedUpdates = [], mutationEffects = []\<rparr> =
     Inr (example_block
            \<lparr>flags := MOUNTED OR UPDATING, memoizedProps := Num 2, memoizedValues := [Num 2]\<rparr>,
          \<lparr>requestedUpdates = [], mutationEffects = []\<rparr>)
   \<and> (MOUNTED OR UPDATING) AND UPDATING \<noteq> 0"
proof -
  have run: "render example_templates (\<lambda>this u. ()) 1 example_block
     \<lparr>requestedUpdates = [], mutationEffects = []\<rparr> =
     Inr (example_block
            \<lparr>flags := MOUNTED OR UPDATING, memoizedProps := Num 2, memoizedValues := [Num 2]\<rparr>,
          \<lparr>requestedUpdates = [], mutationEffects = []\<rparr>)"
    by (simp add: render_def commit_def example_block_def example_templates_def new_Block_def
        toggles)
  have "flags example_block = MOUNTED OR DIRTY"
    by (simp add: example_block_def)
  with render_toggles_flags [OF run] run show ?thesis
    by (simp add: toggles)
qed

lemma render_fresh_block:
  "map_sum id (flags \<circ> fst)
     (render example_templates (\<lambda>this u. ())
        1 (new_Block (\<lambda>props context. \<lparr>template = 10, values' = [props]\<rparr>) (Num 1) None)
        \<lparr>requestedUpdates = [], mutationEffects = []\<rparr>) = Inr UPDATING"
  by (simp add: render_def commit_def example_templates_def new_Block_def toggles)

text \<open>
  C5: \<open>forceUpdate\<close> changes nothing unless \<open>MOUNTED\<close> is set and \<open>UPDATING\<close> is clear;
  then it sets \<open>DIRTY\<close> and \<open>UPDATING\<close> and calls \<open>requestUpdate\<close> once with the block.
  Any number \<open>n + 1\<close> of consecutive calls on such a block does what the first call
  does: the updater receives exactly one request.
\<close>

theorem forceUpdate_once:
  "forceUpdate this b u =
     (if flags b AND MOUNTED \<noteq> 0 \<and> flags b AND UPDATING = 0
      then (b\<lparr>flags := flags b OR (DIRTY OR UPDATING)\<rparr>,
            u\<lparr>requestedUpdates := requestedUpdates u @ [this]\<rparr>)
      else (b, u))
   \<and> (flags b AND MOUNTED \<noteq> 0 \<and> flags b AND UPDATING = 0 \<longrightarrow>
        flags (fst (forceUpdate this b u)) AND DIRTY \<noteq> 0
        \<and> flags (fst (forceUpdate this b u)) AND UPDATING \<noteq> 0
        \<and> forceUpdates (Suc n) this b u = forceUpdate this b u
        \<and> requestedUpdates (snd (forceUpdates (Suc n) this b u)) =
            requestedUpdates u @ [this])"
  by (simp add: forceUpdates_Suc flags_after_force1 flags_after_force2 flag_values
      forceUpdate_eq del: forceUpdates.simps)

theorem forceUpdate_once_witness:
  "forceUpdates 3 1 (example_block\<lparr>flags := MOUNTED\<rparr>)
     \<lparr>requestedUpdates = [], mutationEffects = []\<rparr> =
     (example_block\<lparr>flags := MOUNTED OR (DIRTY OR UPDATING)\<rparr>,
      \<lparr>requestedUpdates = [1], mutationEffects = []\<rparr>)"
proof -
  have "MOUNTED AND MOUNTED \<noteq> 0 \<and> MOUNTED AND UPDATING = 0"
    by (simp add: MOUNTED_def UPDATING_def)
  then show ?thesis
    using forceUpdate_once [of 1 "example_block\<lparr>flags := MOUNTED\<rparr>"
        "\<lparr>requestedUpdates = [], mutationEffects = []\<rparr>" 2]
    by (simp add: numeral_3_eq_3 del: forceUpdates.simps)
qed

section \<open>Properties of the unsafe-SVG directive\<close>

text \<open>
  C7: applied to a part that is not a \<open>ChildPart\<close>, the directive throws, whatever its
  content; the part's value and the updater are as before the call.
\<close>

theorem unsafeSVG_not_child_throws:
  assumes "part_class p \<noteq> ChildPart"
  shows "directiveSymbol content this_part p u = (Some (Error must_be_child), p, u)"
  using assms by (simp add: directiveSymbol_def)

theorem unsafeSVG_not_child_throws_witness:
  "directiveSymbol ''<circle/>'' 3 \<lparr>part_class = AttributePart, value' = OtherValue Null\<rparr>
     \<lparr>requestedUpdates = [], mutationEffects = []\<rparr> =
     (Some (Error must_be_child), \<lparr>part_class = AttributePart, value' = OtherValue Null\<rparr>,
      \<lparr>requestedUpdates = [], mutationEffects = []\<rparr>)"
  using unsafeSVG_not_child_throws
    [of "\<lparr>part_class = AttributePart, value' = OtherValue Null\<rparr>" "''<circle/>''" 3
      "\<lparr>requestedUpdates = [], mutationEffects = []\<rparr>"]
  by simp

text \<open>
  C8: the directive stores an \<open>UnsafeSVG\<close> object, not an \<open>UnsafeSVGChild\<close>, as the value
  of the part, so its test for an \<open>UnsafeSVGChild\<close> with the same content fails on the
  value it stored itself. Applied to a child part that does not hold an
  \<open>UnsafeSVGChild\<close> of this content, it sets the value and enqueues a mutation effect;
  applied again with the same content to the part it left, it sets the value and
  enqueues a mutation effect again.
\<close>

theorem unsafeSVG_same_content_repeats:
  assumes "part_class p = ChildPart"
    and "\<forall>s e. value' p \<noteq> UnsafeSVGChild content s e"
  shows "directiveSymbol content this_part p u =
           (None, p\<lparr>value' := UnsafeSVG content\<rparr>,
            u\<lparr>mutationEffects := mutationEffects u @ [this_part]\<rparr>)
       \<and> directiveSymbol content this_part (p\<lparr>value' := UnsafeSVG content\<rparr>)
           (u\<lparr>mutationEffects := mutationEffects u @ [this_part]\<rparr>) =
           (None, p\<lparr>value' := UnsafeSVG content\<rparr>,
            u\<lparr>mutationEffects := mutationEffects u @ [this_part, this_part]\<rparr>)"
  using assms
  by (cases "value' p")
    (simp_all add: directiveSymbol_def setValue_def enqueueMutationEffect_def)

theorem unsafeSVG_same_content_repeats_witness:
  "directiveSymbol ''<circle/>'' 3 \<lparr>part_class = ChildPart, value' = UnsafeSVG ''<circle/>''\<rparr>
     \<lparr>requestedUpdates = [], mutationEffects = [3]\<rparr> =
     (None, \<lparr>part_class = ChildPart, value' = UnsafeSVG ''<circle/>''\<rparr>,
      \<lparr>requestedUpdates = [], mutationEffects = [3, 3]\<rparr>)"
  using unsafeSVG_same_content_repeats
    [of "\<lparr>part_class = ChildPart, value' = OtherValue Null\<rparr>" "''<circle/>''" 3
      "\<lparr>requestedUpdates = [], mutationEffects = []\<rparr>"]
  by simp

section \<open>Properties of the condition directive\<close>

lemma trace_record_event [simp]: "trace (record_event e w) = trace w @ [e]"
  by (simp add: record_event_def)

lemma allocated_record_event [simp]: "allocated (record_event e w) = allocated w"
  by (simp add: record_event_def)

lemma accepted_record_event [simp]: "accepted (record_event e w) = accepted w"
  by (simp add: record_event_def)

lemma part_of_record_event [simp]: "part_of (record_event e w) = part_of w"
  by (simp add: record_event_def)

lemma trace_unbind_opt: "trace (unbind_opt b w) = trace w @ map Unbound (opt_list b)"
  by (cases b) (simp_all add: unbind_def)

lemma trace_disconnect_opt:
  "trace (disconnect_opt b w) = trace w @ map Disconnected (opt_list b)"
  by (cases b) (simp_all add: disconnect_def)

lemma allocated_unbind_opt [simp]: "allocated (unbind_opt b w) = allocated w"
  by (cases b) (simp_all add: unbind_def)

lemma accepted_unbind_opt [simp]: "accepted (unbind_opt b w) = accepted w"
  by (cases b) (simp_all add: unbind_def)

lemma added_append [simp]: "trace w' = trace w @ es \<Longrightarrow> added w w' = es"
  by (simp add: added_def)

lemma createBinding_trace:
  "createBinding p v w = (b, w') \<Longrightarrow>
   b = allocated w \<and> trace w' = trace w @ [Created (allocated w) p v]"
  by (auto simp: createBinding_def)

lemma updateBinding_trace:
  "updateBinding b v force w = (b', w') \<Longrightarrow>
   trace w' = trace w @
     (if kind_of v = accepted w b then [Bound b v force]
      else [Unbound b, Disconnected b, Created (allocated w) (part_of w b) v])
   \<and> b' = (if kind_of v = accepted w b then b else allocated w)"
  by (auto simp: updateBinding_def createBinding_def unbind_def disconnect_def
      split: if_splits)

lemma evaluate_trace:
  "evaluate name x w = (v, w') \<Longrightarrow>
   v = result_of x \<and> allocated w' = allocated w \<and> accepted w' = accepted w
   \<and> part_of w' = part_of w
   \<and> trace w' = trace w @ (case x of Value _ \<Rightarrow> [] | Function _ \<Rightarrow> [Invoked name])"
  by (cases x) auto

lemma ConditionBinding_bind_events:
  assumes "ConditionBinding_bind cb w = (cb', w')"
  shows "added w w' =
     (case condition (directive cb) of Value _ \<Rightarrow> [] | Function _ \<Rightarrow> [Invoked ''condition''])
     @ (if result_of (condition (directive cb)) then
          (case trueCase (directive cb) of Value _ \<Rightarrow> [] | Function _ \<Rightarrow> [Invoked ''trueCase''])
          @ branch_events (trueBinding cb) (falseBinding cb) (part cb)
              (result_of (trueCase (directive cb))) w
        else
          (case falseCase (directive cb) of Value _ \<Rightarrow> [] | Function _ \<Rightarrow> [Invoked ''falseCase''])
          @ branch_events (falseBinding cb) (trueBinding cb) (part cb)
              (result_of (falseCase (directive cb))) w)
   \<and> cb' =
     (if result_of (condition (directive cb))
      then cb\<lparr>trueBinding :=
              Some (branch_result (trueBinding cb) (result_of (trueCase (directive cb))) w)\<rparr>
      else cb\<lparr>falseBinding :=
              Some (branch_result (falseBinding cb) (result_of (falseCase (directive cb))) w)\<rparr>)"
proof -
  obtain c w0 where c: "evaluate ''condition'' (condition (directive cb)) w = (c, w0)"
    by (cases "evaluate ''condition'' (condition (directive cb)) w") auto
  note c0 = evaluate_trace [OF c]
  show ?thesis
  proof (cases c)
    case True
    obtain v w1 where v: "evaluate ''trueCase'' (trueCase (directive cb)) w0 = (v, w1)"
      by (cases "evaluate ''trueCase'' (trueCase (directive cb)) w0") auto
    note v0 = evaluate_trace [OF v]
    define w2 where "w2 = unbind_opt (falseBinding cb) w1"
    obtain b w3 where b: "(case trueBinding cb of
        Some t \<Rightarrow> updateBinding t v False w2
      | None \<Rightarrow> createBinding (part cb) v w2) = (b, w3)"
      by (cases "(case trueBinding cb of
        Some t \<Rightarrow> updateBinding t v False w2
      | None \<Rightarrow> createBinding (part cb) v w2)") auto
    have res: "cb' = cb\<lparr>trueBinding := Some b\<rparr>" "w' = w3"
      using assms c True v b unfolding w2_def
      by (simp_all add: ConditionBinding_bind_def Let_def)
    have w2: "trace w2 = trace w1 @ map Unbound (opt_list (falseBinding cb))"
      "allocated w2 = allocated w" "accepted w2 = accepted w" "part_of w2 = part_of w"
      using c0 v0 by (simp_all add: w2_def trace_unbind_opt) (cases "falseBinding cb"; simp add: unbind_def)
    have "trace w3 = trace w2 @
        (case trueBinding cb of
          None \<Rightarrow> [Created (allocated w) (part cb) v]
        | Some t \<Rightarrow>
            if kind_of v = accepted w t then [Bound t v False]
            else [Unbound t, Disconnected t, Created (allocated w) (part_of w t) v])
      \<and> b = branch_result (trueBinding cb) v w"
      using b w2 by (cases "trueBinding cb")
        (auto dest!: createBinding_trace updateBinding_trace simp: branch_result_def)
    then show ?thesis
      using res c0 v0 w2 True by (clarsimp simp: branch_events_def)
  next
    case False
    obtain v w1 where v: "evaluate ''falseCase'' (falseCase (directive cb)) w0 = (v, w1)"
      by (cases "evaluate ''falseCase'' (falseCase (directive cb)) w0") auto
    note v0 = evaluate_trace [OF v]
    define w2 where "w2 = unbind_opt (trueBinding cb) w1"
    obtain b w3 where b: "(case falseBinding cb of
        Some t \<Rightarrow> updateBinding t v False w2
      | None \<Rightarrow> createBinding (part cb) v w2) = (b, w3)"
      by (cases "(case falseBinding cb of
        Some t \<Rightarrow> updateBinding t v False w2
      | None \<Rightarrow> createBinding (part cb) v w2)") auto
    have res: "cb' = cb\<lparr>falseBinding := Some b\<rparr>" "w' = w3"
      using assms c False v b unfolding w2_def
      by (simp_all add: ConditionBinding_bind_def Let_def)
    have w2: "trace w2 = trace w1 @ map Unbound (opt_list (trueBinding cb))"
      "allocated w2 = allocated w" "accepted w2 = accepted w" "part_of w2 = part_of w"
      using c0 v0 by (simp_all add: w2_def trace_unbind_opt) (cases "trueBinding cb"; simp add: unbind_def)
    have "trace w3 = trace w2 @
        (case falseBinding cb of
          None \<Rightarrow> [Created (allocated w) (part cb) v]
        | Some t \<Rightarrow>
            if kind_of v = accepted w t then [Bound t v False]
            else [Unbound t, Disconnected t, Created (allocated w) (part_of w t) v])
      \<and> b = branch_result (falseBinding cb) v w"
      using b w2 by (cases "falseBinding cb")
        (auto dest!: createBinding_trace updateBinding_trace simp: branch_result_def)
    then show ?thesis
      using res c0 v0 w2 False by (clarsimp simp: branch_events_def)
  qed
qed

lemma binds_append: "binds (xs @ ys) = binds xs @ binds ys"
  by (induction xs rule: binds.induct) simp_all

lemma binds_Unbound [simp]: "binds (map Unbound bs) = []"
  by (induction bs) simp_all

lemma binds_invoked [simp]:
  "binds (case x of Value _ \<Rightarrow> [] | Function _ \<Rightarrow> [Invoked name]) = []"
  by (cases x) simp_all

lemma binds_branch_events:
  "binds (branch_events sel oth p v w) = [branch_result sel v w]"
  by (cases sel) (simp_all add: branch_events_def branch_result_def binds_append)

lemma calls_on_append: "calls_on b (xs @ ys) = calls_on b xs @ calls_on b ys"
  by (simp add: calls_on_def)

lemma calls_on_invoked [simp]:
  "calls_on b (case x of Value _ \<Rightarrow> [] | Function _ \<Rightarrow> [Invoked name]) = []"
  by (cases x) (simp_all add: calls_on_def)

lemma calls_on_branch_events:
  "sel \<noteq> Some b \<Longrightarrow> b < allocated w \<Longrightarrow>
   calls_on b (branch_events sel (Some b) p v w) = [Unbound b]"
  by (cases sel) (auto simp: branch_events_def calls_on_def)

lemma ConditionBinding_unbind_events:
  "added w (ConditionBinding_unbind cb w) =
     map Unbound (opt_list (selected (truthy (condition (directive cb))) cb)) @
     map Disconnected (opt_list (other (truthy (condition (directive cb))) cb))"
  by (simp add: ConditionBinding_unbind_def selected_def other_def trace_unbind_opt
      trace_disconnect_opt)

lemma ConditionBinding_disconnect_events:
  "added w (ConditionBinding_disconnect cb w) =
     map Disconnected (opt_list (trueBinding cb) @ opt_list (falseBinding cb))"
  by (simp add: ConditionBinding_disconnect_def trace_disconnect_opt)

lemmas example_defs =
  flipped_twice_def created_true_def ConditionDirective_directiveTag_def
  ConditionBinding_bind_def ConditionBinding_set_value_def ConditionBinding_unbind_def
  yes_no_def empty_world_def createBinding_def updateBinding_def unbind_def
  disconnect_def added_def record_event_def

text \<open>
  C3, as stated, fails: a sub-binding is disconnected not only when the whole binding is
  disconnected. \<open>ConditionBinding.unbind\<close> disconnects the sub-binding of the branch its
  condition does not select. Here a binding is created with a true condition, rebound
  with a false one and with a true one again; \<open>unbind\<close> then calls \<open>unbind\<close> on the true
  branch's sub-binding 0 and \<open>disconnect\<close> on the false branch's sub-binding 1.
\<close>

theorem condition_unbind_disconnects_other:
  "trueBinding (fst flipped_twice) = Some 0
   \<and> falseBinding (fst flipped_twice) = Some 1
   \<and> added (snd flipped_twice)
       (ConditionBinding_unbind (fst flipped_twice) (snd flipped_twice)) =
       [Unbound 0, Disconnected 1]"
  by (simp add: flipped_twice_def ConditionDirective_directiveTag_def
      ConditionBinding_bind_def ConditionBinding_set_value_def ConditionBinding_unbind_def
      yes_no_def empty_world_def createBinding_def updateBinding_def unbind_def
      disconnect_def added_def record_event_def)

text \<open>
  C3, amended: each re-evaluation via \<open>bind\<close> invokes the condition first when it is a
  function, leaves the field of the branch it does not select as it is, binds exactly
  one sub-binding, the one of the selected branch, and calls \<open>unbind\<close> and nothing
  else, in particular not \<open>disconnect\<close>, on the existing sub-binding of the other branch.
  \<open>ConditionBinding.disconnect\<close> disconnects the sub-bindings of both branches, and
  \<open>ConditionBinding.unbind\<close> unbinds the sub-binding of the branch that the truthiness
  of the stored condition selects and disconnects the sub-binding of the other branch.
\<close>

theorem condition_branch_isolation:
  assumes "ConditionBinding_bind cb w = (cb', w')"
    and "c = result_of (condition (directive cb))"
  shows "(\<forall>f. condition (directive cb) = Function f \<longrightarrow>
            (\<exists>es. added w w' = Invoked ''condition'' # es))
       \<and> other c cb' = other c cb
       \<and> (\<exists>b. selected c cb' = Some b \<and> binds (added w w') = [b])
       \<and> (\<forall>b. other c cb = Some b \<and> selected c cb \<noteq> Some b \<and> b < allocated w \<longrightarrow>
            calls_on b (added w w') = [Unbound b])
       \<and> added w (ConditionBinding_disconnect cb w) =
            map Disconnected (opt_list (trueBinding cb) @ opt_list (falseBinding cb))
       \<and> added w (ConditionBinding_unbind cb w) =
            map Unbound (opt_list (selected (truthy (condition (directive cb))) cb)) @
            map Disconnected (opt_list (other (truthy (condition (directive cb))) cb))"
proof -
  note ev = ConditionBinding_bind_events [OF assms(1)]
  have 1: "\<forall>f. condition (directive cb) = Function f \<longrightarrow>
      (\<exists>es. added w w' = Invoked ''condition'' # es)"
    using ev by simp
  have 2: "other c cb' = other c cb"
    using ev assms(2) by (simp add: other_def)
  have 3: "\<exists>b. selected c cb' = Some b \<and> binds (added w w') = [b]"
    using ev assms(2) by (simp add: selected_def binds_append binds_branch_events)
  have 4: "calls_on b (added w w') = [Unbound b]"
    if "other c cb = Some b" "selected c cb \<noteq> Some b" "b < allocated w" for b
    using ev assms(2) that
    by (cases c) (simp_all add: other_def selected_def calls_on_append calls_on_branch_events)
  show ?thesis
    using 1 2 3 4 ConditionBinding_disconnect_events ConditionBinding_unbind_events
    by blast
qed

theorem condition_branch_isolation_witness:
  "calls_on 0
     (added (snd created_true)
        (snd (ConditionBinding_bind
                (ConditionBinding_set_value (fst created_true)
                   (yes_no (Function (\<lambda>u. False))))
                (snd created_true)))) = [Unbound 0]"
proof -
  let ?cb = "ConditionBinding_set_value (fst created_true) (yes_no (Function (\<lambda>u. False)))"
  let ?w = "snd created_true"
  obtain cb' w' where run: "ConditionBinding_bind ?cb ?w = (cb', w')"
    by (cases "ConditionBinding_bind ?cb ?w") auto
  have pre: "other (result_of (condition (directive ?cb))) ?cb = Some 0
      \<and> selected (result_of (condition (directive ?cb))) ?cb \<noteq> Some 0
      \<and> 0 < allocated ?w"
    by (simp add: other_def selected_def example_defs)
  from condition_branch_isolation [OF run refl] pre
  have "calls_on 0 (added ?w w') = [Unbound 0]"
    by blast
  then show ?thesis
    using run by simp
qed

text \<open>
  C10: when the condition of the directive is a function, \<open>unbind\<close> does not invoke it.
  Whatever the function would return, \<open>unbind\<close> calls \<open>unbind\<close> on the true branch's
  sub-binding and \<open>disconnect\<close> on the false branch's sub-binding, and nothing else;
  \<open>bind\<close> invokes the function first and leaves alone the branch its result does not
  select.
\<close>

theorem condition_unbind_never_invokes:
  assumes "condition (directive cb) = Function f"
  shows "ConditionBinding_unbind cb w =
           disconnect_opt (falseBinding cb) (unbind_opt (trueBinding cb) w)
       \<and> added w (ConditionBinding_unbind cb w) =
           map Unbound (opt_list (trueBinding cb)) @
           map Disconnected (opt_list (falseBinding cb))
       \<and> Invoked ''condition'' \<notin> set (added w (ConditionBinding_unbind cb w))
       \<and> (\<exists>es. added w (snd (ConditionBinding_bind cb w)) = Invoked ''condition'' # es)
       \<and> (if f () then falseBinding (fst (ConditionBinding_bind cb w)) = falseBinding cb
           else trueBinding (fst (ConditionBinding_bind cb w)) = trueBinding cb)"
proof -
  obtain cb' w' where run: "ConditionBinding_bind cb w = (cb', w')"
    by (cases "ConditionBinding_bind cb w") auto
  note ev = ConditionBinding_bind_events [OF run]
  have a: "ConditionBinding_unbind cb w =
      disconnect_opt (falseBinding cb) (unbind_opt (trueBinding cb) w)"
    using assms by (simp add: ConditionBinding_unbind_def)
  have b: "added w (ConditionBinding_unbind cb w) =
      map Unbound (opt_list (trueBinding cb)) @ map Disconnected (opt_list (falseBinding cb))"
    using assms by (simp add: ConditionBinding_unbind_events selected_def other_def)
  have c: "Invoked ''condition'' \<notin> set (added w (ConditionBinding_unbind cb w))"
    unfolding b by auto
  have d: "\<exists>es. added w (snd (ConditionBinding_bind cb w)) = Invoked ''condition'' # es"
    using ev assms run by simp
  have e: "if f () then falseBinding (fst (ConditionBinding_bind cb w)) = falseBinding cb
      else trueBinding (fst (ConditionBinding_bind cb w)) = trueBinding cb"
    using ev assms run by simp
  show ?thesis
    using a b c d e by blast
qed

theorem condition_unbind_never_invokes_witness:
  "added (snd flipped_twice)
     (ConditionBinding_unbind
        (ConditionBinding_set_value (fst flipped_twice) (yes_no (Function (\<lambda>u. False))))
        (snd flipped_twice)) = [Unbound 0, Disconnected 1]"
proof -
  let ?cb = "ConditionBinding_set_value (fst flipped_twice) (yes_no (Function (\<lambda>u. False)))"
  have "condition (directive ?cb) = Function (\<lambda>u. False)"
    by (simp add: ConditionBinding_set_value_def yes_no_def)
  from condition_unbind_never_invokes [OF this, of "snd flipped_twice"]
  show ?thesis
    by (simp add: example_defs)
qed

section \<open>Properties of the choice directive\<close>

lemma zero_norm_idem [simp]: "zero_norm (zero_norm k) = zero_norm k"
  by (cases k) simp_all

lemma Map_get_set:
  "Map_get (Map_set m k v) k' = (if same_value_zero k k' then Some v else Map_get m k')"
  by (induction m) (auto simp: same_value_zero_def)

lemma updateBinding_same_or_disconnected:
  "updateBinding b v force w = (b', w') \<Longrightarrow> b' = b \<or> Disconnected b \<in> set (trace w')"
  by (auto dest!: updateBinding_trace split: if_splits)

text \<open>The key-change branch of bind, step by step.\<close>

lemma ChoiceBinding_bind_change:
  assumes "\<not> same_value (currentKey cb) (key (choiceDirective cb))"
    and "ChoiceBinding_bind cb w = (cb', w')"
  shows "cachedBindings cb' = Map_set (cachedBindings cb) (currentKey cb) (currentBinding cb)"
    and "currentKey cb' = key (choiceDirective cb)"
    and "choiceDirective cb' = choiceDirective cb"
    and "(currentBinding cb', w') =
      (case Map_get (cachedBindings cb') (key (choiceDirective cb)) of
         Some cachedBinding \<Rightarrow>
           updateBinding cachedBinding
             (factory (choiceDirective cb) (key (choiceDirective cb))) True
             (unbind (currentBinding cb) (record_event (Invoked ''factory'') w))
       | None \<Rightarrow>
           createBinding (part_of w (currentBinding cb))
             (factory (choiceDirective cb) (key (choiceDirective cb)))
             (unbind (currentBinding cb) (record_event (Invoked ''factory'') w)))"
  using assms
  by (auto simp: ChoiceBinding_bind_def Let_def unbind_def split: prod.splits option.splits)

lemma ChoiceBinding_bind_change_events:
  assumes "\<not> same_value (currentKey cb) (key (choiceDirective cb))"
    and "ChoiceBinding_bind cb w = (cb', w')"
  shows "\<exists>es. trace w' = trace w @ Invoked ''factory'' # Unbound (currentBinding cb) # es"
proof -
  let ?w1 = "unbind (currentBinding cb) (record_event (Invoked ''factory'') w)"
  have t1: "trace ?w1 = trace w @ [Invoked ''factory'', Unbound (currentBinding cb)]"
    by (simp add: unbind_def)
  show ?thesis
  proof (cases "Map_get (cachedBindings cb') (key (choiceDirective cb))")
    case None
    with ChoiceBinding_bind_change(4) [OF assms]
    have "createBinding (part_of w (currentBinding cb))
        (factory (choiceDirective cb) (key (choiceDirective cb))) ?w1 = (currentBinding cb', w')"
      by simp
    from createBinding_trace [OF this] t1 show ?thesis by simp
  next
    case (Some c)
    with ChoiceBinding_bind_change(4) [OF assms]
    have "updateBinding c (factory (choiceDirective cb) (key (choiceDirective cb))) True ?w1 =
        (currentBinding cb', w')"
      by simp
    from updateBinding_trace [OF this] t1 show ?thesis by (simp split: if_splits)
  qed
qed

lemmas choice_example_defs =
  there_and_back_def choice_away_def back_as_directive_def keyed_def ChoiceDirective_directiveTag_def ChoiceBinding_bind_def
  ChoiceBinding_set_value_def ChoiceBinding_unbind_def ChoiceBinding_disconnect_def
  empty_world_def createBinding_def updateBinding_def unbind_def disconnect_def added_def
  record_event_def same_value_def same_value_zero_def strict_equals_def Let_def

lemma accepted_unbind [simp]: "accepted (unbind b w) = accepted w"
  by (simp add: unbind_def)

text \<open>
  C2, as stated, fails: that the Binding of \<open>A\<close> was not disconnected in between does
  not make the return to \<open>A\<close> reuse it. \<open>updateBinding\<close> replaces the cached Binding when
  the value the factory returns for \<open>A\<close> has another directive kind than the Binding
  accepts. Here Binding 0 is created for the key \<open>a\<close> with a plain value and the
  binding is rebound with the key \<open>b\<close>; no \<open>disconnect\<close> was called on Binding 0. Rebound
  with the key \<open>a\<close> by a directive whose factory returns a directive value, the current
  Binding is the new Binding 2.
\<close>

theorem choice_return_replaces_binding:
  "currentBinding (fst (ChoiceDirective_directiveTag (keyed (Str ''a'')) 9 empty_world)) = 0
   \<and> trace (snd (choice_away (Str ''a'') (Str ''b''))) =
       [Invoked ''factory'', Created 0 9 (Plain (Str ''a'')),
        Invoked ''factory'', Unbound 0, Created 1 9 (Plain (Str ''b''))]
   \<and> Disconnected 0 \<notin> set (trace (snd (choice_away (Str ''a'') (Str ''b''))))
   \<and> currentKey (fst (back_as_directive (Str ''a'') (Str ''b''))) = Str ''a''
   \<and> currentBinding (fst (back_as_directive (Str ''a'') (Str ''b''))) = 2"
  by (simp add: choice_example_defs)

text \<open>
  C2, amended: a choice binding whose active key is \<open>A\<close> is rebound with a directive of
  another key \<open>B\<close> and then with a directive of key \<open>A\<close> again. If the Binding that was
  active for \<open>A\<close> was not disconnected in between, that is during the first rebinding,
  and the value the factory returns for \<open>A\<close> on return has the directive kind that
  Binding accepts, the current Binding after the second rebinding is that same object.
  On the key change the previous Binding is unbound first and stored in the cache
  under the old key, and the Binding for the new key is the result of \<open>updateBinding\<close>
  with the force argument on the cached Binding when the cache has one for the new
  key, and a new Binding otherwise; the return to \<open>A\<close> ends with a forced \<open>bind\<close> of the
  original Binding.
\<close>

theorem choice_cache_reuse:
  assumes change: "\<not> same_value (currentKey cb) (key d1)"
    and ret: "key d2 = currentKey cb"
    and step1: "ChoiceBinding_bind (ChoiceBinding_set_value cb d1) w = (cb1, w1)"
    and step2: "ChoiceBinding_bind (ChoiceBinding_set_value cb1 d2) w1 = (cb2, w2)"
    and never: "Disconnected (currentBinding cb) \<notin> set (added w w1)"
    and kind: "kind_of (factory d2 (key d2)) = accepted w1 (currentBinding cb)"
  shows "currentBinding cb2 = currentBinding cb
       \<and> currentKey cb2 = currentKey cb
       \<and> cachedBindings cb1 = Map_set (cachedBindings cb) (currentKey cb) (currentBinding cb)
       \<and> (\<exists>es. added w w1 = Invoked ''factory'' # Unbound (currentBinding cb) # es)
       \<and> (currentBinding cb1, w1) =
           (case Map_get (cachedBindings cb1) (key d1) of
              Some cachedBinding \<Rightarrow>
                updateBinding cachedBinding (factory d1 (key d1)) True
                  (unbind (currentBinding cb) (record_event (Invoked ''factory'') w))
            | None \<Rightarrow>
                createBinding (part_of w (currentBinding cb)) (factory d1 (key d1))
                  (unbind (currentBinding cb) (record_event (Invoked ''factory'') w)))
       \<and> (\<exists>es. added w1 w2 = es @ [Bound (currentBinding cb) (factory d2 (key d2)) True])"
proof -
  let ?A = "currentKey cb" and ?bA = "currentBinding cb" and ?B = "key d1"
  let ?c0 = "ChoiceBinding_set_value cb d1"
  have c0: "currentKey ?c0 = ?A" "currentBinding ?c0 = ?bA" "choiceDirective ?c0 = d1"
    "cachedBindings ?c0 = cachedBindings cb"
    by (simp_all add: ChoiceBinding_set_value_def)
  have ch1: "\<not> same_value (currentKey ?c0) (key (choiceDirective ?c0))"
    using change c0 by simp
  note s1 = ChoiceBinding_bind_change [OF ch1 step1, unfolded c0]
  let ?c1 = "ChoiceBinding_set_value cb1 d2"
  have c1: "currentKey ?c1 = ?B" "currentBinding ?c1 = currentBinding cb1"
    "choiceDirective ?c1 = d2" "cachedBindings ?c1 = cachedBindings cb1"
    using s1 by (simp_all add: ChoiceBinding_set_value_def)
  have ch2: "\<not> same_value (currentKey ?c1) (key (choiceDirective ?c1))"
    using change ret c1 by (auto simp: same_value_def)
  note s2 = ChoiceBinding_bind_change [OF ch2 step2, unfolded c1]
  let ?w1' = "unbind ?bA (record_event (Invoked ''factory'') w)"
  let ?w2' = "unbind (currentBinding cb1) (record_event (Invoked ''factory'') w1)"
  have t1: "trace ?w1' = trace w @ [Invoked ''factory'', Unbound ?bA]"
    by (simp add: unbind_def)
  have b1: "currentBinding cb1 = ?bA" if "same_value_zero ?B ?A"
  proof -
    have "Map_get (cachedBindings cb1) ?B = Some ?bA"
      using that s1(1) by (simp add: Map_get_set same_value_zero_def)
    with s1(4) have "updateBinding ?bA (factory d1 ?B) True ?w1' = (currentBinding cb1, w1)"
      by simp
    from updateBinding_trace [OF this] t1 never show ?thesis
      by (auto simp: added_def split: if_splits)
  qed
  have get: "Map_get (cachedBindings cb2) ?A = Some ?bA"
    using s2(1) s1(1) b1 by (simp add: Map_get_set same_value_zero_def)
  with s2(4) ret
  have upd: "updateBinding ?bA (factory d2 (key d2)) True ?w2' = (currentBinding cb2, w2)"
    by simp
  have kind': "kind_of (factory d2 (key d2)) = accepted ?w2' ?bA"
    using kind by simp
  have same: "currentBinding cb2 = ?bA"
    using updateBinding_trace [OF upd] kind' by simp
  have last: "\<exists>es. added w1 w2 = es @ [Bound ?bA (factory d2 (key d2)) True]"
    using updateBinding_trace [OF upd] kind'
    by (simp add: added_def unbind_def)
  have ev1: "\<exists>es. added w w1 = Invoked ''factory'' # Unbound ?bA # es"
    using ChoiceBinding_bind_change_events [OF ch1 step1] c0 by auto
  show ?thesis
    using same s2(2) ret s1(1) ev1 s1(4) last by simp
qed

theorem choice_cache_reuse_witness:
  "currentBinding (fst (there_and_back (Str ''a'') (Str ''b''))) =
   currentBinding (fst (ChoiceDirective_directiveTag (keyed (Str ''a'')) 9 empty_world))"
proof -
  obtain cb w where init:
    "ChoiceDirective_directiveTag (keyed (Str ''a'')) 9 empty_world = (cb, w)"
    by (cases "ChoiceDirective_directiveTag (keyed (Str ''a'')) 9 empty_world") auto
  obtain cb1 w1 where step1:
    "ChoiceBinding_bind (ChoiceBinding_set_value cb (keyed (Str ''b''))) w = (cb1, w1)"
    by (cases "ChoiceBinding_bind (ChoiceBinding_set_value cb (keyed (Str ''b''))) w") auto
  obtain cb2 w2 where step2:
    "ChoiceBinding_bind (ChoiceBinding_set_value cb1 (keyed (Str ''a''))) w1 = (cb2, w2)"
    by (cases "ChoiceBinding_bind (ChoiceBinding_set_value cb1 (keyed (Str ''a''))) w1") auto
  have run: "there_and_back (Str ''a'') (Str ''b'') = (cb2, w2)"
    using init step1 step2 by (simp add: there_and_back_def)
  have away: "choice_away (Str ''a'') (Str ''b'') = (cb1, w1)"
    using init step1 by (simp add: choice_away_def)
  have cb: "currentKey cb = Str ''a''" "currentBinding cb = 0" "trace w = 
      [Invoked ''factory'', Created 0 9 (Plain (Str ''a''))]"
    using init by (auto simp: ChoiceDirective_directiveTag_def keyed_def createBinding_def
        empty_world_def record_event_def)
  have chg: "\<not> same_value (currentKey cb) (key (keyed (Str ''b'')))"
    using cb by (simp add: same_value_def keyed_def)
  have ret: "key (keyed (Str ''a'')) = currentKey cb"
    using cb by (simp add: keyed_def)
  have w1: "trace (snd (choice_away (Str ''a'') (Str ''b''))) =
       [Invoked ''factory'', Created 0 9 (Plain (Str ''a'')),
        Invoked ''factory'', Unbound 0, Created 1 9 (Plain (Str ''b''))]"
    "accepted (snd (choice_away (Str ''a'') (Str ''b''))) 0 = None"
    by (simp_all add: choice_example_defs)
  have never: "Disconnected (currentBinding cb) \<notin> set (added w w1)"
    using w1 away cb by (simp add: added_def)
  have kind: "kind_of (factory (keyed (Str ''a'')) (key (keyed (Str ''a'')))) =
      accepted w1 (currentBinding cb)"
    using w1 away cb by (simp add: keyed_def)
  from choice_cache_reuse [OF chg ret step1 step2 never kind] show ?thesis
    using run init by simp
qed

lemma disconnect_others_trace:
  "trace (disconnect_others k m w) =
     trace w @ map (Disconnected \<circ> snd) (filter (\<lambda>(k', b). \<not> strict_equals k' k) m)"
  by (induction k m w rule: disconnect_others.induct) (simp_all add: disconnect_def)

lemma ChoiceBinding_sweep:
  "added w (ChoiceBinding_disconnect cb w) =
     map (Disconnected \<circ> snd)
       (filter (\<lambda>(k', b). \<not> strict_equals k' (key (choiceDirective cb))) (cachedBindings cb))"
  "added w (ChoiceBinding_unbind cb w) =
     Unbound (currentBinding cb) #
     map (Disconnected \<circ> snd)
       (filter (\<lambda>(k', b). \<not> strict_equals k' (key (choiceDirective cb))) (cachedBindings cb))"
  by (simp_all add: ChoiceBinding_disconnect_def ChoiceBinding_unbind_def
      disconnect_others_trace unbind_def)

lemma strict_equals_same_value_zero:
  "k \<noteq> NaN \<Longrightarrow> strict_equals k' k \<longleftrightarrow> same_value_zero k' k"
  by (cases k'; cases k) (simp_all add: strict_equals_def same_value_zero_def)

text \<open>
  For an active key other than \<open>NaN\<close>, \<open>disconnect\<close> and \<open>unbind\<close> disconnect only Bindings
  cached under a key that is not the active one.
\<close>

lemma ChoiceBinding_sweep_spares_active:
  assumes "key (choiceDirective cb) \<noteq> NaN"
    and "Disconnected b \<in> set (added w (ChoiceBinding_disconnect cb w))
       \<or> Disconnected b \<in> set (added w (ChoiceBinding_unbind cb w))"
  shows "\<exists>k'. (k', b) \<in> set (cachedBindings cb)
       \<and> \<not> same_value_zero k' (key (choiceDirective cb))"
  using assms by (auto simp: ChoiceBinding_sweep strict_equals_same_value_zero)

lemma choice_sweep_spares_string_key:
  "added (snd (there_and_back (Str ''a'') (Str ''b'')))
     (ChoiceBinding_unbind (fst (there_and_back (Str ''a'') (Str ''b'')))
        (snd (there_and_back (Str ''a'') (Str ''b'')))) =
     [Unbound 0, Disconnected 1]"
  by (simp add: choice_example_defs)

text \<open>
  C6: \<open>unbind\<close> and \<open>disconnect\<close> compare the cached keys with the active key by \<open>!==\<close>,
  under which \<open>NaN\<close> differs from itself. A choice binding created with the key \<open>NaN\<close>,
  rebound with the key \<open>b\<close> and with \<open>NaN\<close> again has the original Binding 0 as its
  current Binding, cached under \<open>NaN\<close>, and both \<open>unbind\<close> and \<open>disconnect\<close> call
  \<open>disconnect\<close> on it: the Binding of the active key is disconnected.
\<close>

theorem choice_sweep_disconnects_NaN:
  "currentKey (fst (there_and_back NaN (Str ''b''))) = NaN
   \<and> key (choiceDirective (fst (there_and_back NaN (Str ''b'')))) = NaN
   \<and> currentBinding (fst (there_and_back NaN (Str ''b''))) = 0
   \<and> cachedBindings (fst (there_and_back NaN (Str ''b''))) = [(NaN, 0), (Str ''b'', 1)]
   \<and> added (snd (there_and_back NaN (Str ''b'')))
       (ChoiceBinding_unbind (fst (there_and_back NaN (Str ''b'')))
          (snd (there_and_back NaN (Str ''b'')))) =
       [Unbound 0, Disconnected 0, Disconnected 1]
   \<and> added (snd (there_and_back NaN (Str ''b'')))
       (ChoiceBinding_disconnect (fst (there_and_back NaN (Str ''b'')))
          (snd (there_and_back NaN (Str ''b'')))) =
       [Disconnected 0, Disconnected 1]"
  by (simp add: choice_example_defs)

end
